theory Spec2Isabelle
  imports Complex_Main
begin

section \<open>Data model of \<^verbatim>\<open>transcribe_server.py\<close>\<close>

text \<open>
  The recognition pipeline (\<^verbatim>\<open>pipe\<close>) is an external collaborator. Its result is a
  dictionary; \<^verbatim>\<open>result.get("chunks")\<close> is either \<^verbatim>\<open>None\<close> or a list of chunk
  dictionaries. A chunk has an optional \<^verbatim>\<open>"timestamp"\<close> (a pair whose components may
  each be \<^verbatim>\<open>None\<close>) and an optional \<^verbatim>\<open>"text"\<close>. An absent key and a key bound to
  \<^verbatim>\<open>None\<close> are the same to \<^verbatim>\<open>dict.get\<close>, so both are \<open>None\<close> here.

  Seconds are Python floats; they are modelled as real numbers, so \<open>+\<close> is exact and
  \<^verbatim>\<open>float(x)\<close> is the identity. Python strings are modelled as \<open>string\<close>, the error
  messages as their UTF-8 bytes.
\<close>

record chunk =
  chunk_timestamp :: "(real option \<times> real option) option"
  chunk_text :: "string option"

text \<open>
  The dictionary appended to \<^verbatim>\<open>items\<close>, with keys \<^verbatim>\<open>"id"\<close>, \<^verbatim>\<open>"start"\<close>,
  \<^verbatim>\<open>"end"\<close> and \<^verbatim>\<open>"text"\<close>.
\<close>

record segment =
  seg_id :: int
  seg_start :: real
  seg_end :: real
  seg_text :: string

text \<open>The dictionary returned by \<^verbatim>\<open>_segments_to_response\<close>.\<close>

record response =
  resp_text :: string
  resp_segments :: "segment list"

text \<open>Both failures of \<^verbatim>\<open>_build_segments\<close> raise \<^verbatim>\<open>RuntimeError\<close> with a message.\<close>

datatype error = RuntimeError string

definition MissingUpstreamOutputError :: error where
  \<comment> \<open>the error raised at lines 35-38, when \<^verbatim>\<open>segments is None\<close>\<close>
  "MissingUpstreamOutputError = RuntimeError
     (''Kh'' @ [CHR 0xC3, CHR 0xB4] @ ''ng t'' @ [CHR 0xC3, CHR 0xAC] @ ''m th''
      @ [CHR 0xE1, CHR 0xBA, CHR 0xA5] @ ''y segments n'' @ [CHR 0xC3, CHR 0xA0] @ ''o, c''
      @ [CHR 0xC3, CHR 0xB3] @ '' th'' @ [CHR 0xE1, CHR 0xBB, CHR 0x83] @ '' file qu''
      @ [CHR 0xC3, CHR 0xA1] @ '' ng'' @ [CHR 0xE1, CHR 0xBA, CHR 0xAF] @ ''n ho''
      @ [CHR 0xE1, CHR 0xBA, CHR 0xB7] @ ''c kh'' @ [CHR 0xC3, CHR 0xB4] @ ''ng c''
      @ [CHR 0xC3, CHR 0xB3] @ '' ti'' @ [CHR 0xE1, CHR 0xBA, CHR 0xBF] @ ''ng.'')"

definition EmptyTranscriptError :: error where
  \<comment> \<open>the error raised at lines 71-72, when \<^verbatim>\<open>items\<close> is empty\<close>
  "EmptyTranscriptError = RuntimeError
     (''Kh'' @ [CHR 0xC3, CHR 0xB4] @ ''ng t'' @ [CHR 0xE1, CHR 0xBA, CHR 0xA1] @ ''o ''
      @ [CHR 0xC4, CHR 0x91, CHR 0xC6, CHR 0xB0, CHR 0xE1, CHR 0xBB, CHR 0xA3] @ ''c ph''
      @ [CHR 0xE1, CHR 0xBB, CHR 0xA5] @ '' '' @ [CHR 0xC4, CHR 0x91, CHR 0xE1, CHR 0xBB, CHR 0x81]
      @ '' n'' @ [CHR 0xC3, CHR 0xA0] @ ''o t'' @ [CHR 0xE1, CHR 0xBB, CHR 0xAB] @ '' file ''
      @ [CHR 0xC4, CHR 0x91, CHR 0xE1, CHR 0xBA, CHR 0xA7] @ ''u v'' @ [CHR 0xC3, CHR 0xA0]
      @ ''o.'')"

section \<open>Python string operations\<close>

text \<open>
  \<^verbatim>\<open>str.strip()\<close> removes leading and trailing whitespace. The whitespace characters
  in the ASCII range are the code points 9 to 13 and 28 to 32; whitespace beyond ASCII
  (such as the no-break space) is not modelled.
\<close>

definition is_space :: "char \<Rightarrow> bool" where
  "is_space c = (let n = (of_char c :: nat) in (9 \<le> n \<and> n \<le> 13) \<or> (28 \<le> n \<and> n \<le> 32))"

definition strip :: "string \<Rightarrow> string" where
  "strip s = rev (dropWhile is_space (rev (dropWhile is_space s)))"

text \<open>\<^verbatim>\<open>sep.join(xs)\<close>\<close>

fun join :: "string \<Rightarrow> string list \<Rightarrow> string" where
  "join sep [] = []"
| "join sep [x] = x"
| "join sep (x # y # ys) = x @ sep @ join sep (y # ys)"

text \<open>\<^verbatim>\<open>x or ""\<close> for an optional string: \<^verbatim>\<open>None\<close> and \<^verbatim>\<open>""\<close> are falsy.\<close>

definition or_empty :: "string option \<Rightarrow> string" where
  "or_empty x = (case x of None \<Rightarrow> [] | Some t \<Rightarrow> if t = [] then [] else t)"

section \<open>\<^verbatim>\<open>_build_segments\<close>\<close>

text \<open>
  The \<^verbatim>\<open>for seg in segments\<close> loop of lines 43-69, with its two variables
  \<^verbatim>\<open>items\<close> and \<^verbatim>\<open>index\<close> passed as state. Every \<^verbatim>\<open>continue\<close> is a recursive
  call with the state unchanged.
\<close>

fun build_loop :: "chunk list \<Rightarrow> segment list \<Rightarrow> int \<Rightarrow> segment list \<times> int" where
  "build_loop [] items index = (items, index)"
| "build_loop (seg # segments) items index =
     (case chunk_timestamp seg of
        None \<Rightarrow> build_loop segments items index
      | Some (start_sec, end_sec) \<Rightarrow>
          (case start_sec of
             None \<Rightarrow> build_loop segments items index
           | Some s \<Rightarrow>
               (let e = (case end_sec of None \<Rightarrow> s + 2 | Some e' \<Rightarrow> e');
                    txt = strip (or_empty (chunk_text seg))
                in if txt = [] then build_loop segments items index
                   else build_loop segments
                          (items @ [\<lparr>seg_id = index, seg_start = s, seg_end = e, seg_text = txt\<rparr>])
                          (index + 1))))"

text \<open>
  \<^verbatim>\<open>_build_segments\<close>, from the point where \<^verbatim>\<open>pipe\<close> has returned: the argument is
  \<^verbatim>\<open>result.get("chunks")\<close>.
\<close>

definition build_segments :: "chunk list option \<Rightarrow> error + segment list" where
  "build_segments chunks =
     (case chunks of
        None \<Rightarrow> Inl MissingUpstreamOutputError
      | Some segments \<Rightarrow>
          (let items = fst (build_loop segments [] 1)
           in if items = [] then Inl EmptyTranscriptError else Inr items))"

section \<open>\<^verbatim>\<open>_segments_to_response\<close>\<close>

definition segments_to_response :: "segment list \<Rightarrow> response" where
  "segments_to_response segments =
     \<lparr>resp_text = strip (join '' '' (map (\<lambda>seg. strip (seg_text seg)) segments)),
      resp_segments = segments\<rparr>"

section \<open>\<^verbatim>\<open>_segments_to_srt\<close>\<close>

text \<open>
  \<^verbatim>\<open>datetime.timedelta\<close> and the \<^verbatim>\<open>srt\<close> package (\<^verbatim>\<open>srt.Subtitle\<close>,
  \<^verbatim>\<open>srt.compose\<close>) are libraries whose code is not part of the source tree; what they
  compute is taken from sections 4.2 and 6 of the specification.
\<close>

text \<open>
  Modelled from the spec: the zero-padded decimal fields of the timing line (section 4.2),
  as the format \<^verbatim>\<open>"%0wd" % i\<close> writes them: the decimal digits of \<open>i\<close>, padded with
  zeros to width \<open>w\<close>, the sign included.
\<close>

function digits :: "nat \<Rightarrow> string" where
  "digits n = (if n < 10 then [''0123456789'' ! n]
               else digits (n div 10) @ [''0123456789'' ! (n mod 10)])"
  by pat_completeness auto
termination
  by (relation "measure (\<lambda>n. n)") auto

declare digits.simps [simp del]

definition zero_pad :: "nat \<Rightarrow> string \<Rightarrow> string" where
  "zero_pad w ds = replicate (w - length ds) (CHR ''0'') @ ds"

definition fmt_d :: "nat \<Rightarrow> int \<Rightarrow> string" where
  "fmt_d w i = (if i < 0 then ''-'' @ zero_pad (w - 1) (digits (nat (- i)))
                else zero_pad w (digits (nat i)))"

text \<open>
  Modelled from the spec: the rounding of section 4.2 ("milliseconds truncated/rounded to
  3 digits"), to the nearest integer with ties to even.
\<close>

definition round_half_even :: "real \<Rightarrow> int" where
  "round_half_even x =
     (let f = \<lfloor>x\<rfloor>; d = x - of_int f
      in if d < 1 / 2 then f else if 1 / 2 < d then f + 1 else if even f then f else f + 1)"

text \<open>
  Modelled from the spec: \<^verbatim>\<open>timedelta(seconds=x)\<close>, the duration \<open>x\<close> rounded to whole
  microseconds.
\<close>

definition timedelta :: "real \<Rightarrow> int" where
  "timedelta seconds = round_half_even (seconds * 1000000)"

text \<open>
  Modelled from the spec: the timing format \<^verbatim>\<open>HH:MM:SS,mmm\<close> of section 4.2, hours,
  minutes and seconds zero-padded to two digits and the microseconds truncated to three
  digits of milliseconds.
\<close>

definition timedelta_to_srt_timestamp :: "int \<Rightarrow> string" where
  "timedelta_to_srt_timestamp us =
     (let total_secs = us div 1000000;
          msecs = (us mod 1000000) div 1000;
          hrs = total_secs div 3600;
          mins = (total_secs mod 3600) div 60;
          secs = total_secs mod 60
      in fmt_d 2 hrs @ '':'' @ fmt_d 2 mins @ '':'' @ fmt_d 2 secs @ '','' @ fmt_d 3 msecs)"

text \<open>
  Modelled from the spec: one block of the SubRip document (section 4.2 and section 6):
  the sequence number line, the timing line, the text line, and a blank line.
\<close>

definition to_srt :: "int \<Rightarrow> int \<Rightarrow> int \<Rightarrow> string \<Rightarrow> string" where
  "to_srt idx start en content =
     fmt_d 0 idx @ [CHR 0x0A]
     @ timedelta_to_srt_timestamp start @ '' --> '' @ timedelta_to_srt_timestamp en @ [CHR 0x0A]
     @ content @ [CHR 0x0A] @ [CHR 0x0A]"

text \<open>
  Modelled from the spec: \<^verbatim>\<open>srt.compose\<close> renders one block per subtitle in list
  order, the sequence numbers re-numbered 1..N in output order (section 4.2).
\<close>

fun compose :: "int \<Rightarrow> (int \<times> int \<times> int \<times> string) list \<Rightarrow> string" where
  "compose n [] = []"
| "compose n ((idx, start, en, content) # subs) = to_srt n start en content @ compose (n + 1) subs"

text \<open>
  \<^verbatim>\<open>_segments_to_srt\<close>: the loop of lines 79-82 builds one \<^verbatim>\<open>srt.Subtitle\<close> per
  segment, then \<^verbatim>\<open>srt.compose\<close> renders them.
\<close>

definition segments_to_srt :: "segment list \<Rightarrow> string" where
  "segments_to_srt segments =
     compose 1 (map (\<lambda>seg. (seg_id seg, timedelta (seg_start seg), timedelta (seg_end seg),
                             seg_text seg)) segments)"

section \<open>The per-fragment rules of the specification\<close>

text \<open>
  Section 4.1, steps 1, 2 and 4: a fragment survives when it has timing information,
  its start is present, and its trimmed text is not empty.
\<close>

definition survives :: "chunk \<Rightarrow> bool" where
  "survives c =
     (case chunk_timestamp c of
        None \<Rightarrow> False
      | Some (start_sec, end_sec) \<Rightarrow>
          (case start_sec of
             None \<Rightarrow> False
           | Some s \<Rightarrow> strip (or_empty (chunk_text c)) \<noteq> []))"



section \<open>Example inputs\<close>

text \<open>The concrete scenario of section 8 of the specification.\<close>

definition scenario_fragments :: "chunk list" where
  "scenario_fragments =
     [\<lparr>chunk_timestamp = Some (Some 0, Some 2.5), chunk_text = Some '' Hello ''\<rparr>,
      \<lparr>chunk_timestamp = Some (Some 2.5, None), chunk_text = Some ''world''\<rparr>]"

definition scenario_segments :: "segment list" where
  "scenario_segments =
     [\<lparr>seg_id = 1, seg_start = 0, seg_end = 2.5, seg_text = ''Hello''\<rparr>,
      \<lparr>seg_id = 2, seg_start = 2.5, seg_end = 4.5, seg_text = ''world''\<rparr>]"

definition scenario_srt :: string where
  "scenario_srt =
     ''1'' @ [CHR 0x0A] @ ''00:00:00,000 --> 00:00:02,500'' @ [CHR 0x0A] @ ''Hello'' @ [CHR 0x0A]
     @ [CHR 0x0A]
     @ ''2'' @ [CHR 0x0A] @ ''00:00:02,500 --> 00:00:04,500'' @ [CHR 0x0A] @ ''world'' @ [CHR 0x0A]
     @ [CHR 0x0A]"



section \<open>Properties of \<^verbatim>\<open>strip\<close>\<close>



lemma strip_all_space:
  assumes "\<forall>c\<in>set t. is_space c"
  shows "strip t = []"
proof -
  from assms have d: "dropWhile is_space t = []" by (simp only: dropWhile_eq_Nil_conv)
  show ?thesis unfolding strip_def d by simp
qed


section \<open>The loop of \<^verbatim>\<open>_build_segments\<close>\<close>

text \<open>A fragment that does not survive leaves the loop state as it is.\<close>

lemma build_loop_skip:
  "\<not> survives c \<Longrightarrow> build_loop (c # cs) items i = build_loop cs items i"
  by (auto simp: survives_def split: option.splits prod.splits)







lemma build_loop_append:
  "build_loop (xs @ ys) items i = build_loop ys (fst (build_loop xs items i)) (snd (build_loop xs items i))"
  by (induction xs arbitrary: items i) (simp_all add: Let_def split: option.splits prod.splits)

lemma build_loop_drop:
  assumes "\<not> survives c"
  shows "build_loop (pre @ c # post) items i = build_loop (pre @ post) items i"
proof -
  have "build_loop (pre @ c # post) items i
        = build_loop (c # post) (fst (build_loop pre items i)) (snd (build_loop pre items i))"
    by (rule build_loop_append)
  also have "\<dots> = build_loop post (fst (build_loop pre items i)) (snd (build_loop pre items i))"
    using assms by (rule build_loop_skip)
  also have "\<dots> = build_loop (pre @ post) items i"
    by (rule build_loop_append [symmetric])
  finally show ?thesis .
qed

lemma build_segments_drop:
  "\<not> survives c \<Longrightarrow> build_segments (Some (pre @ c # post)) = build_segments (Some (pre @ post))"
  by (simp add: build_segments_def build_loop_drop)



section \<open>The example inputs evaluated\<close>

lemmas eval_defs = survives_def strip_def or_empty_def is_space_def build_segments_def

lemma scenario_build: "build_segments (Some scenario_fragments) = Inr scenario_segments"
  by (simp add: scenario_fragments_def scenario_segments_def eval_defs)





section \<open>Empty-result failure\<close>



section \<open>Fallback end time\<close>



section \<open>Sequential ids\<close>



section \<open>Drop rules and trimmed text\<close>



section \<open>The concrete scenario\<close>

text \<open>
  C5: the two fragments of the scenario give the two segments of the scenario, the
  SubRip document with its two blocks, and the transcript text \<^verbatim>\<open>Hello world\<close> with the
  segments passed through.
\<close>

theorem scenario_outputs:
  "build_segments (Some scenario_fragments) = Inr scenario_segments
   \<and> segments_to_srt scenario_segments = scenario_srt
   \<and> resp_text (segments_to_response scenario_segments) = ''Hello world''
   \<and> resp_segments (segments_to_response scenario_segments) = scenario_segments"
proof -
  have 1: "build_segments (Some scenario_fragments) = Inr scenario_segments"
    by (rule scenario_build)
  have 2: "segments_to_srt scenario_segments = scenario_srt"
    unfolding scenario_segments_def scenario_srt_def by code_simp
  have 3: "resp_text (segments_to_response scenario_segments) = ''Hello world''"
    by (simp add: scenario_segments_def segments_to_response_def strip_def is_space_def)
  have 4: "resp_segments (segments_to_response scenario_segments) = scenario_segments"
    by (simp add: segments_to_response_def)
  from 1 2 3 4 show ?thesis by blast
qed

section \<open>\<^verbatim>\<open>_segments_to_response\<close>\<close>


section \<open>Start and end of a segment\<close>




section \<open>Failure on a missing chunk collection\<close>

lemma error_messages_differ: "MissingUpstreamOutputError \<noteq> EmptyTranscriptError"
  by (simp add: MissingUpstreamOutputError_def EmptyTranscriptError_def)

text \<open>
  C8: when the recognition result has no \<^verbatim>\<open>"chunks"\<close> at all, \<^verbatim>\<open>_build_segments\<close>
  fails with the missing-output error, which is not the empty-transcript error, and
  returns no segment list.
\<close>

theorem build_segments_missing_chunks:
  "build_segments None = Inl MissingUpstreamOutputError
   \<and> MissingUpstreamOutputError \<noteq> EmptyTranscriptError
   \<and> isl (build_segments None)"
  by (simp add: build_segments_def error_messages_differ)

section \<open>A fragment without text\<close>

text \<open>
  C9: a fragment whose text is absent or \<^verbatim>\<open>None\<close> is read as the empty string and
  skipped: the loop state is unchanged, and the result is that of the list without the
  fragment, which is also the result when the fragment's text is whitespace only.
\<close>

theorem null_text_skipped:
  assumes "chunk_text c = None" and "list_all is_space ws"
  shows "or_empty (chunk_text c) = []
         \<and> build_loop (c # cs) items i = build_loop cs items i
         \<and> build_loop (c\<lparr>chunk_text := Some ws\<rparr> # cs) items i = build_loop cs items i
         \<and> build_segments (Some (pre @ c # post)) = build_segments (Some (pre @ post))
         \<and> build_segments (Some (pre @ c\<lparr>chunk_text := Some ws\<rparr> # post))
             = build_segments (Some (pre @ post))"
proof -
  from assms(1) have e: "or_empty (chunk_text c) = []" by (simp add: or_empty_def)
  then have 1: "\<not> survives c"
    by (simp add: survives_def strip_def split: option.splits prod.splits)
  from assms(2) have "strip ws = []" by (simp add: strip_all_space list_all_iff)
  then have "strip (or_empty (Some ws)) = []" by (simp add: or_empty_def strip_def)
  then have 2: "\<not> survives (c\<lparr>chunk_text := Some ws\<rparr>)"
    by (simp add: survives_def split: option.splits prod.splits)
  from e build_loop_skip [OF 1] build_loop_skip [OF 2] build_segments_drop [OF 1]
    build_segments_drop [OF 2]
  show ?thesis by simp
qed

text \<open>
  A fragment without text after the scenario's two fragments.
\<close>

theorem null_text_skipped_witness:
  "chunk_text \<lparr>chunk_timestamp = Some (Some 3, Some 4), chunk_text = None\<rparr> = None
   \<and> list_all is_space ''  ''
   \<and> build_segments (Some (scenario_fragments
         @ [\<lparr>chunk_timestamp = Some (Some 3, Some 4), chunk_text = None\<rparr>]))
       = build_segments (Some scenario_fragments)
   \<and> build_segments (Some (scenario_fragments
         @ [\<lparr>chunk_timestamp = Some (Some 3, Some 4), chunk_text = Some ''  ''\<rparr>]))
       = build_segments (Some scenario_fragments)"
proof -
  have h1: "chunk_text \<lparr>chunk_timestamp = Some (Some 3, Some 4), chunk_text = None\<rparr> = None"
    by simp
  have h2: "list_all is_space ''  ''" by (simp add: is_space_def)
  from null_text_skipped [OF h1 h2, of "[]" "[]" 1 scenario_fragments "[]"] h1 h2
  show ?thesis by simp
qed

section \<open>The response for an empty list\<close>

text \<open>
  C10: \<^verbatim>\<open>_segments_to_response\<close> on the empty list returns the empty text and the
  empty list.
\<close>

theorem segments_to_response_empty:
  "segments_to_response [] = \<lparr>resp_text = [], resp_segments = []\<rparr>"
  by (simp add: segments_to_response_def strip_def)

end
